theory Spec2Isabelle
  imports Complex_Main "HOL-Library.AList"
begin

section \<open>Errors raised by the ArFS client\<close>

text \<open>
  Every \<open>throw new Error(...)\<close> of the source is one constructor, named after the message
  it carries; \<open>TypeError\<close> stands for the runtime error of reading a property of
  \<open>undefined\<close>, \<open>External\<close> for a failure raised inside a collaborator that is not part
  of the repository (gateway, contract reader, wallet).
\<close>

datatype error =
    FolderNotFound string
  | NoDriveIdTag string
  | PublicDriveNotFound string
  | PrivateDriveNotFound string
  | PrivateDriveNotFoundOrNotPrivate string
  | DriveIdMismatch string string
  | NotEnoughAR
  | NoTokenHolder
  | SubTreePaths
  | TypeError
  | External string

section \<open>Ledger edges and the drive-ID lookup\<close>

record GQLTag =
  tagName :: string
  tagValue :: string

record GQLNode =
  nodeId :: string
  nodeTags :: "GQLTag list"

text \<open>\<open>Array.prototype.find\<close>: the first element satisfying the predicate, or undefined.\<close>

fun findTag :: "(GQLTag \<Rightarrow> bool) \<Rightarrow> GQLTag list \<Rightarrow> GQLTag option" where
  "findTag p [] = None"
| "findTag p (t # ts) = (if p t then Some t else findTag p ts)"

text \<open>
  \<open>ArFSDAOAnonymous.getDriveIdForFolderId\<close>, applied to the edges the gateway returned
  for the query on \<open>Folder-Id\<close>.
\<close>

definition getDriveIdForFolderId :: "string \<Rightarrow> GQLNode list \<Rightarrow> error + string" where
  "getDriveIdForFolderId folderId edges =
     (case edges of
        [] \<Rightarrow> Inl (FolderNotFound folderId)
      | e # rest \<Rightarrow>
          (case findTag (\<lambda>t. tagName t = ''Drive-Id'') (nodeTags e) of
             Some driveIdTag \<Rightarrow> Inr (tagValue driveIdTag)
           | None \<Rightarrow> Inl (NoDriveIdTag folderId)))"

section \<open>Gateway and drives\<close>

record ArFSDrive =
  driveName :: string
  rootFolderId :: string

text \<open>
  The gateway and the entity builders are collaborators outside the sources: what the
  GraphQL endpoint answers to a query, and what \<open>ArFSPublicDriveBuilder.build\<close> and
  \<open>ArFSPrivateDriveBuilder.build\<close> resolve to (\<open>None\<close>: a falsy value).
\<close>

record Gateway =
  queryFolderId :: "string \<Rightarrow> error + GQLNode list"
  queryDriveId :: "string \<Rightarrow> string \<Rightarrow> error + GQLNode list"
  buildPublicDrive :: "string \<Rightarrow> error + ArFSDrive option"
  buildPrivateDrive :: "string \<Rightarrow> string \<Rightarrow> error + ArFSDrive option"

text \<open>\<open>getDriveIdForFolderId\<close> with the query it posts.\<close>

definition lookupDriveIdForFolderId :: "Gateway \<Rightarrow> string \<Rightarrow> error + string" where
  "lookupDriveIdForFolderId gw fid =
     (case queryFolderId gw fid of
        Inl e \<Rightarrow> Inl e
      | Inr edges \<Rightarrow> getDriveIdForFolderId fid edges)"


definition getPrivateDrive :: "Gateway \<Rightarrow> string \<Rightarrow> string \<Rightarrow> error + ArFSDrive option" where
  "getPrivateDrive gw did driveKey =
     (case queryDriveId gw did ''private'' of
        Inl e \<Rightarrow> Inl e
      | Inr edges \<Rightarrow>
          if edges = [] then Inl (PrivateDriveNotFoundOrNotPrivate did)
          else buildPrivateDrive gw did driveKey)"

section \<open>Transactions and uploaders\<close>

text \<open>
  A signed transaction, as far as the client reads it. \<open>reward\<close> is the fee in Winston,
  the natural number that unary \<open>+\<close> reads from the decimal string.
\<close>

record Transaction =
  trxId :: string
  reward :: nat
  target :: string
  quantity :: string

text \<open>
  The uploader of the gateway client for one transaction: an opaque state \<open>'u\<close> and the
  operations the client calls on it. \<open>uploadChunk\<close> rejects or advances the uploader;
  \<open>uploadDataChunk\<close> (\<open>ardrive-core-js\<close>) advances it and returns it, or returns null
  (\<open>False\<close>).
\<close>

record 'u UploaderOps =
  getUploader :: "Transaction \<Rightarrow> error + 'u"
  isComplete :: "'u \<Rightarrow> bool"
  uploadChunk :: "'u \<Rightarrow> error + 'u"
  uploadDataChunk :: "'u \<Rightarrow> bool \<times> 'u"
  pctComplete :: "'u \<Rightarrow> nat"
  uploadedChunks :: "'u \<Rightarrow> nat"
  totalChunks :: "'u \<Rightarrow> nat"

text \<open>
  What happens during a chunked upload, in order: a call of \<open>uploadDataChunk\<close> that
  returned the uploader or null, and a line of \<open>console.log\<close> with the percentage, the
  chunks uploaded and the chunks in total.
\<close>

datatype uploadEvent = ChunkUploaded | ChunkNull | Logged nat nat nat

record 'u uploadRun =
  uploader :: 'u
  events :: "uploadEvent list"

text \<open>The \<open>while (!dataUploader.isComplete)\<close> loop of \<open>sendChunkedUploadWithProgress\<close>.\<close>

partial_function (option) chunkedUploadLoop ::
  "'u UploaderOps \<Rightarrow> 'u uploadRun \<Rightarrow> 'u uploadRun option" where
  "chunkedUploadLoop ops run =
     (if isComplete ops (uploader run) then Some run
      else
        (case uploadDataChunk ops (uploader run) of
           (nextChunk, u') \<Rightarrow>
             if \<not> nextChunk
             then Some \<lparr>uploader = u', events = events run @ [ChunkNull]\<rparr>
             else
               chunkedUploadLoop ops
                 \<lparr>uploader = u',
                  events = events run
                    @ [ChunkUploaded,
                       Logged (pctComplete ops u') (uploadedChunks ops u') (totalChunks ops u')]\<rparr>))"

declare chunkedUploadLoop.simps [code]

text \<open>
  \<open>ArFSDAO.sendChunkedUploadWithProgress\<close>: \<open>Inl\<close> is a rejection of the returned promise,
  \<open>Inr\<close> its fulfilment; \<open>None\<close> a loop that never ends.
\<close>

definition sendChunkedUploadWithProgress ::
  "'u UploaderOps \<Rightarrow> Transaction \<Rightarrow> (error + 'u uploadRun) option" where
  "sendChunkedUploadWithProgress ops trx =
     (case getUploader ops trx of
        Inl e \<Rightarrow> Some (Inl e)
      | Inr dataUploader \<Rightarrow>
          map_option Inr (chunkedUploadLoop ops \<lparr>uploader = dataUploader, events = []\<rparr>))"

text \<open>The loop ends within \<open>k\<close> chunks: the upload completes or a chunk is null.\<close>

fun stopsWithin :: "nat \<Rightarrow> 'u UploaderOps \<Rightarrow> 'u \<Rightarrow> bool" where
  "stopsWithin 0 ops u = isComplete ops u"
| "stopsWithin (Suc k) ops u =
     (isComplete ops u \<or>
      (case uploadDataChunk ops u of (nextChunk, u') \<Rightarrow> \<not> nextChunk \<or> stopsWithin k ops u'))"

text \<open>
  Every uploaded chunk is followed at once by its progress line, nothing else is logged,
  and a null chunk is the last event.
\<close>

fun progressReported :: "uploadEvent list \<Rightarrow> bool" where
  "progressReported [] = True"
| "progressReported (ChunkUploaded # Logged p u t # es) = progressReported es"
| "progressReported [ChunkNull] = True"
| "progressReported es = False"

text \<open>
  An uploader of three chunks, its state the number of chunks uploaded, whose second chunk
  fails: \<open>uploadDataChunk\<close> returns null.
\<close>

definition stallingUploader :: "nat UploaderOps" where
  "stallingUploader =
     \<lparr>getUploader = (\<lambda>trx. Inr 0),
      isComplete = (\<lambda>u. 3 \<le> u),
      uploadChunk = (\<lambda>u. if u < 1 then Inr (Suc u) else Inl (External ''chunk'')),
      uploadDataChunk = (\<lambda>u. if u < 1 then (True, Suc u) else (False, u)),
      pctComplete = (\<lambda>u. (100 * u) div 3),
      uploadedChunks = (\<lambda>u. u),
      totalChunks = (\<lambda>u. 3)\<rparr>"

text \<open>An uploader of two chunks that both succeed, and one that is complete from the start.\<close>

definition steadyUploader :: "nat UploaderOps" where
  "steadyUploader =
     \<lparr>getUploader = (\<lambda>trx. Inr 0),
      isComplete = (\<lambda>u. 2 \<le> u),
      uploadChunk = (\<lambda>u. Inr (Suc u)),
      uploadDataChunk = (\<lambda>u. (True, Suc u)),
      pctComplete = (\<lambda>u. (100 * u) div 2),
      uploadedChunks = (\<lambda>u. u),
      totalChunks = (\<lambda>u. 2)\<rparr>"

definition completeUploader :: "nat UploaderOps" where
  "completeUploader = steadyUploader\<lparr>getUploader := (\<lambda>trx. Inr 2)\<rparr>"

definition dataTrx0 :: Transaction where
  "dataTrx0 = \<lparr>trxId = ''data-tx'', reward = 700, target = [], quantity = ''0''\<rparr>"

section \<open>Creating folders\<close>














text \<open>
  A gateway that knows the drive \<open>d1\<close> with root folder \<open>r1\<close>, and the folder \<open>p2\<close> of
  another drive \<open>d2\<close>; a DAO in a dry run on it.
\<close>

definition gateway1 :: Gateway where
  "gateway1 =
     \<lparr>queryFolderId = (\<lambda>fid.
         if fid = ''p2''
         then Inr [\<lparr>nodeId = ''tx-p2'', nodeTags = [\<lparr>tagName = ''Drive-Id'', tagValue = ''d2''\<rparr>]\<rparr>]
         else if fid = ''r1''
         then Inr [\<lparr>nodeId = ''tx-r1'', nodeTags = [\<lparr>tagName = ''Drive-Id'', tagValue = ''d1''\<rparr>]\<rparr>]
         else Inr []),
      queryDriveId = (\<lambda>did privacy.
         if did = ''d1'' then Inr [\<lparr>nodeId = ''tx-d1'', nodeTags = []\<rparr>] else Inr []),
      buildPublicDrive = (\<lambda>did. Inr (Some \<lparr>driveName = ''drive'', rootFolderId = ''r1''\<rparr>)),
      buildPrivateDrive = (\<lambda>did driveKey. Inr (Some \<lparr>driveName = ''drive'', rootFolderId = ''r1''\<rparr>))\<rparr>"





section \<open>Uploading files\<close>

record ArFSEntityData =
  entityType :: string
  metadataTxId :: string
  dataTxId :: "string option"
  createdEntityId :: "string option"
  key :: "string option"

record ArFSTipData =
  tipTxId :: string
  recipient :: string
  winston :: string

record ArFSResult =
  created :: "ArFSEntityData list"
  tips :: "ArFSTipData list"
  fees :: "(string \<times> nat) list"

text \<open>
  The collaborators of \<open>ArDrive\<close> whose code is outside the sources, as functions of the
  arguments they are called with: the DAO's \<open>preparePublicFileTransactions\<close>,
  \<open>preparePrivateFileTransactions\<close> and \<open>uploadByChunk\<close>, the community oracle's
  \<open>getCommunityWinstonTip\<close> and \<open>selectTokenHolder\<close>, the wallet DAO's
  \<open>prepareARToAddressTransaction\<close> and \<open>submitTransaction\<close>, and the balance of the wallet.
  \<open>uploadByChunk\<close> and \<open>submitTransaction\<close> give the error their promise rejects with.
\<close>

record ArDriveEnv =
  arFsGateway :: Gateway
  preparePublicFileTransactions ::
    "string \<Rightarrow> string \<Rightarrow> string \<Rightarrow> string option \<Rightarrow> error + (Transaction \<times> Transaction \<times> string)"
  preparePrivateFileTransactions ::
    "string \<Rightarrow> string \<Rightarrow> string \<Rightarrow> string \<Rightarrow> string option
       \<Rightarrow> error + (Transaction \<times> Transaction \<times> string)"
  getCommunityWinstonTip :: "nat \<Rightarrow> error + nat"
  communitySelectTokenHolder :: "error + string"
  prepareARToAddressTransaction :: "rat \<Rightarrow> string \<Rightarrow> error + Transaction"
  walletBalance :: nat
  uploadByChunk :: "Transaction \<Rightarrow> error option"
  submitTransaction :: "Transaction \<Rightarrow> error option"

text \<open>What \<open>ArDrive\<close> has done: the transactions handed over for submission, in order.\<close>

record ArDriveWorld =
  submitted :: "Transaction list"

text \<open>
  Modelled from the spec: \<open>walletDao.walletHasBalance\<close>, whose code is not part of the
  sources: the wallet has the balance for a price unless its balance is less than the
  price.
\<close>

definition walletHasBalance :: "nat \<Rightarrow> nat \<Rightarrow> bool" where
  "walletHasBalance balanceOfWallet winstonPrice \<longleftrightarrow> \<not> balanceOfWallet < winstonPrice"

text \<open>\<open>winstonToAr\<close> (\<open>ardrive-core-js\<close>): one AR is \<open>10\<^sup>1\<^sup>2\<close> Winston.\<close>

definition winstonToAr :: "nat \<Rightarrow> rat" where
  "winstonToAr w = of_nat w / 10 ^ 12"

definition prepareCommunityTipTrx :: "ArDriveEnv \<Rightarrow> nat \<Rightarrow> error + Transaction" where
  "prepareCommunityTipTrx env communityWinstonTip =
     (case communitySelectTokenHolder env of
        Inl e \<Rightarrow> Inl e
      | Inr tokenHolder \<Rightarrow>
          prepareARToAddressTransaction env (winstonToAr communityWinstonTip) tokenHolder)"

text \<open>
  \<open>await Promise.all([uploadByChunk(dataTrx), uploadByChunk(metaDataTrx),
  submitTransaction(commTipTrx)])\<close>: the three calls are made, in this order, before any
  of them is awaited; the result is rejected when one of them is. Which rejection wins is
  a matter of timing; the model takes the first in the order of the array.
\<close>

definition submitAll ::
  "ArDriveEnv \<Rightarrow> ArDriveWorld \<Rightarrow> Transaction \<Rightarrow> Transaction \<Rightarrow> Transaction
     \<Rightarrow> ArDriveWorld \<times> error option" where
  "submitAll env w dataTrx metaDataTrx commTipTrx =
     (w\<lparr>submitted := submitted w @ [dataTrx, metaDataTrx, commTipTrx]\<rparr>,
      (case uploadByChunk env dataTrx of
         Some e \<Rightarrow> Some e
       | None \<Rightarrow>
           (case uploadByChunk env metaDataTrx of
              Some e \<Rightarrow> Some e
            | None \<Rightarrow> submitTransaction env commTipTrx)))"


text \<open>\<open>ArDrive.uploadPrivateFile\<close>\<close>

definition uploadPrivateFile ::
  "ArDriveEnv \<Rightarrow> ArDriveWorld \<Rightarrow> string \<Rightarrow> string \<Rightarrow> string \<Rightarrow> string option
     \<Rightarrow> ArDriveWorld \<times> (error + ArFSResult)" where
  "uploadPrivateFile env w parentFolder filePath password destinationFileName =
     (case lookupDriveIdForFolderId (arFsGateway env) parentFolder of
        Inl e \<Rightarrow> (w, Inl e)
      | Inr driveId \<Rightarrow>
     (case getPrivateDrive (arFsGateway env) driveId password of
        Inl e \<Rightarrow> (w, Inl e)
      | Inr None \<Rightarrow> (w, Inl (PrivateDriveNotFound driveId))
      | Inr (Some drive) \<Rightarrow>
     (case preparePrivateFileTransactions env parentFolder filePath driveId password
             destinationFileName of
        Inl e \<Rightarrow> (w, Inl e)
      | Inr (dataTrx, metaDataTrx, fileId) \<Rightarrow>
     (case getCommunityWinstonTip env (reward dataTrx) of
        Inl e \<Rightarrow> (w, Inl e)
      | Inr communityWinstonTip \<Rightarrow>
     (case prepareCommunityTipTrx env communityWinstonTip of
        Inl e \<Rightarrow> (w, Inl e)
      | Inr commTipTrx \<Rightarrow>
          (let totalWinstonPrice = reward dataTrx + reward commTipTrx + reward metaDataTrx
           in if \<not> walletHasBalance (walletBalance env) totalWinstonPrice
              then (w, Inl NotEnoughAR)
              else
                (case submitAll env w dataTrx metaDataTrx commTipTrx of
                   (w', Some e) \<Rightarrow> (w', Inl e)
                 | (w', None) \<Rightarrow>
                     (w', Inr
                        \<lparr>created = [\<lparr>entityType = ''file'', metadataTxId = trxId metaDataTrx,
                                      dataTxId = Some (trxId dataTrx),
                                      createdEntityId = Some fileId, key = Some []\<rparr>],
                         tips = [\<lparr>tipTxId = trxId commTipTrx, recipient = target commTipTrx,
                                   winston = quantity commTipTrx\<rparr>],
                         fees = AList.update (trxId commTipTrx) (reward commTipTrx)
                                  (AList.update (trxId dataTrx) (reward dataTrx)
                                    (AList.update (trxId metaDataTrx) (reward metaDataTrx) []))\<rparr>))))))))"

text \<open>
  A wallet of 1000 Winston uploading into folder \<open>r1\<close> of drive \<open>d1\<close>: the data
  transaction costs 700, the metadata transaction 50 and the tip transaction 30.
\<close>

definition metaTrx0 :: Transaction where
  "metaTrx0 = \<lparr>trxId = ''meta-tx'', reward = 50, target = [], quantity = ''0''\<rparr>"

definition tipTrx0 :: Transaction where
  "tipTrx0 = \<lparr>trxId = ''tip-tx'', reward = 30, target = ''holder'', quantity = ''105''\<rparr>"

definition arDrive1 :: ArDriveEnv where
  "arDrive1 =
     \<lparr>arFsGateway = gateway1,
      preparePublicFileTransactions = (\<lambda>parent filePath driveId dest. Inr (dataTrx0, metaTrx0, ''file-1'')),
      preparePrivateFileTransactions =
        (\<lambda>parent filePath driveId password dest. Inr (dataTrx0, metaTrx0, ''file-1'')),
      getCommunityWinstonTip = (\<lambda>cost. Inr 105),
      communitySelectTokenHolder = Inr ''holder'',
      prepareARToAddressTransaction = (\<lambda>ar holder. Inr tipTrx0),
      walletBalance = 1000,
      uploadByChunk = (\<lambda>trx. None),
      submitTransaction = (\<lambda>trx. None)\<rparr>"


section \<open>Community tip\<close>



section \<open>Selecting the token holder\<close>















section \<open>Folder hierarchy\<close>


text \<open>
  \<open>FolderTreeNode\<close> objects are shared and mutated (\<open>parent.children.push(node)\<close>), so
  they live in a store: a list of nodes, a reference being an index into it. A new node is
  allocated at the end of the store.
\<close>

record FolderTreeNode =
  folderId :: string
  parent :: "nat option"
  children :: "nat list"






fun modifyAt :: "nat \<Rightarrow> ('a \<Rightarrow> 'a) \<Rightarrow> 'a list \<Rightarrow> 'a list" where
  "modifyAt a f [] = []"
| "modifyAt 0 f (n # ns) = f n # ns"
| "modifyAt (Suc a) f (n # ns) = n # modifyAt a f ns"
















fun mapWithErrors :: "('a \<Rightarrow> error + 'b) \<Rightarrow> 'a list \<Rightarrow> error + 'b list" where
  "mapWithErrors f [] = Inr []"
| "mapWithErrors f (x # xs) =
     (case f x of
        Inl e \<Rightarrow> Inl e
      | Inr y \<Rightarrow> (case mapWithErrors f xs of Inl e \<Rightarrow> Inl e | Inr ys \<Rightarrow> Inr (y # ys)))"


















subsection \<open>Example drives\<close>










section \<open>Properties\<close>

subsection \<open>Drive-ID lookup\<close>

lemma findTag_None: "findTag p ts = None \<longleftrightarrow> (\<forall>t \<in> set ts. \<not> p t)"
  by (induction ts) auto

lemma findTag_Some: "findTag p ts = Some t \<Longrightarrow> t \<in> set ts \<and> p t"
  by (induction ts) (auto split: if_splits)

text \<open>
  C10: \<open>getDriveIdForFolderId\<close> throws the not-found error when the query returned no
  edge; otherwise it looks at the first edge only: it returns the value of the first
  \<open>Drive-Id\<close> tag of that edge, throws when that edge has no such tag, and gives the same
  result whatever edges follow the first.
\<close>

theorem getDriveIdForFolderId_first_edge_only:
  "getDriveIdForFolderId fid [] = Inl (FolderNotFound fid)
   \<and> (findTag (\<lambda>t. tagName t = ''Drive-Id'') (nodeTags e) = Some t
        \<longrightarrow> getDriveIdForFolderId fid (e # rest) = Inr (tagValue t))
   \<and> ((\<forall>t \<in> set (nodeTags e). tagName t \<noteq> ''Drive-Id'')
        \<longrightarrow> getDriveIdForFolderId fid (e # rest) = Inl (NoDriveIdTag fid))
   \<and> getDriveIdForFolderId fid (e # rest) = getDriveIdForFolderId fid (e # rest')"
proof -
  have none: "(\<forall>t \<in> set (nodeTags e). tagName t \<noteq> ''Drive-Id'')
      \<Longrightarrow> findTag (\<lambda>t. tagName t = ''Drive-Id'') (nodeTags e) = None"
    by (simp add: findTag_None)
  show ?thesis
    using none by (simp add: getDriveIdForFolderId_def)
qed

theorem getDriveIdForFolderId_first_edge_only_witness:
  "getDriveIdForFolderId ''f1'' [] = Inl (FolderNotFound ''f1'')
   \<and> getDriveIdForFolderId ''f1''
        [\<lparr>nodeId = ''tx1'', nodeTags = [\<lparr>tagName = ''App-Name'', tagValue = ''ArDrive''\<rparr>,
                                       \<lparr>tagName = ''Drive-Id'', tagValue = ''d1''\<rparr>,
                                       \<lparr>tagName = ''Drive-Id'', tagValue = ''d2''\<rparr>]\<rparr>,
         \<lparr>nodeId = ''tx2'', nodeTags = [\<lparr>tagName = ''Drive-Id'', tagValue = ''d3''\<rparr>]\<rparr>]
       = Inr ''d1''
   \<and> getDriveIdForFolderId ''f1''
        [\<lparr>nodeId = ''tx1'', nodeTags = [\<lparr>tagName = ''App-Name'', tagValue = ''ArDrive''\<rparr>]\<rparr>,
         \<lparr>nodeId = ''tx2'', nodeTags = [\<lparr>tagName = ''Drive-Id'', tagValue = ''d3''\<rparr>]\<rparr>]
       = Inl (NoDriveIdTag ''f1'')"
  using getDriveIdForFolderId_first_edge_only
          [of "''f1''"
              "\<lparr>nodeId = ''tx1'', nodeTags = [\<lparr>tagName = ''App-Name'', tagValue = ''ArDrive''\<rparr>,
                                       \<lparr>tagName = ''Drive-Id'', tagValue = ''d1''\<rparr>,
                                       \<lparr>tagName = ''Drive-Id'', tagValue = ''d2''\<rparr>]\<rparr>"
              "\<lparr>tagName = ''Drive-Id'', tagValue = ''d1''\<rparr>"
              "[\<lparr>nodeId = ''tx2'', nodeTags = [\<lparr>tagName = ''Drive-Id'', tagValue = ''d3''\<rparr>]\<rparr>]"]
        getDriveIdForFolderId_first_edge_only
          [of "''f1''"
              "\<lparr>nodeId = ''tx1'', nodeTags = [\<lparr>tagName = ''App-Name'', tagValue = ''ArDrive''\<rparr>]\<rparr>"
              _
              "[\<lparr>nodeId = ''tx2'', nodeTags = [\<lparr>tagName = ''Drive-Id'', tagValue = ''d3''\<rparr>]\<rparr>]"]
  by simp

subsection \<open>Community tip\<close>


subsection \<open>Building the hierarchy\<close>










subsection \<open>Subtrees\<close>


lemma length_modifyAt [simp]: "length (modifyAt a f xs) = length xs"
  by (induction a f xs rule: modifyAt.induct) auto


























subsection \<open>Paths\<close>






lemma mapWithErrors_Inr:
  "mapWithErrors f ns = Inr ys \<Longrightarrow> map f ns = map Inr ys"
  by (induction ns arbitrary: ys) (auto split: sum.splits)














subsection \<open>Chunked upload\<close>

lemma loop_complete:
  "isComplete ops (uploader run) \<Longrightarrow> chunkedUploadLoop ops run = Some run"
  by (subst chunkedUploadLoop.simps) simp

lemma loop_null:
  "\<not> isComplete ops (uploader run) \<Longrightarrow> uploadDataChunk ops (uploader run) = (False, u') \<Longrightarrow>
     chunkedUploadLoop ops run = Some \<lparr>uploader = u', events = events run @ [ChunkNull]\<rparr>"
  by (subst chunkedUploadLoop.simps) simp

lemma loop_chunk:
  "\<not> isComplete ops (uploader run) \<Longrightarrow> uploadDataChunk ops (uploader run) = (True, u') \<Longrightarrow>
     chunkedUploadLoop ops run =
       chunkedUploadLoop ops
         \<lparr>uploader = u',
          events = events run
            @ [ChunkUploaded,
               Logged (pctComplete ops u') (uploadedChunks ops u') (totalChunks ops u')]\<rparr>"
  by (subst chunkedUploadLoop.simps) simp

lemma loop_returns:
  "stopsWithin k ops (uploader run) \<Longrightarrow> \<exists>r. chunkedUploadLoop ops run = Some r"
proof (induction k arbitrary: run)
  case 0
  then show ?case by (simp add: loop_complete)
next
  case (Suc k)
  show ?case
  proof (cases "isComplete ops (uploader run)")
    case True
    then show ?thesis by (simp add: loop_complete)
  next
    case False
    obtain ok u' where step: "uploadDataChunk ops (uploader run) = (ok, u')"
      by (cases "uploadDataChunk ops (uploader run)")
    show ?thesis
    proof (cases ok)
      case True
      with Suc.prems False step have "stopsWithin k ops u'" by simp
      from Suc.IH[of "\<lparr>uploader = u',
          events = events run
            @ [ChunkUploaded,
               Logged (pctComplete ops u') (uploadedChunks ops u') (totalChunks ops u')]\<rparr>"] this
      show ?thesis using loop_chunk[OF False] step True by simp
    next
      case nul: False
      with False step show ?thesis by (simp add: loop_null)
    qed
  qed
qed

lemma progressReported_append:
  "progressReported es \<Longrightarrow> (es = [] \<or> last es \<noteq> ChunkNull) \<Longrightarrow>
     progressReported (es @ [ChunkUploaded, Logged p u t])
     \<and> progressReported (es @ [ChunkNull])"
  by (induction es rule: progressReported.induct) (auto split: if_splits)

lemma loop_events:
  assumes "chunkedUploadLoop ops run = Some r"
  shows "progressReported (events run) \<and> (events run = [] \<or> last (events run) \<noteq> ChunkNull)
           \<longrightarrow> progressReported (events r)"
  using assms
proof (rule chunkedUploadLoop.raw_induct
         [where P = "\<lambda>ops run r. progressReported (events run)
                        \<and> (events run = [] \<or> last (events run) \<noteq> ChunkNull)
                      \<longrightarrow> progressReported (events r)", rotated])
  fix f :: "'a UploaderOps \<Rightarrow> 'a uploadRun \<Rightarrow> 'a uploadRun option"
    and ops :: "'a UploaderOps" and run r :: "'a uploadRun"
  assume IH: "\<And>ops run r. f ops run = Some r \<Longrightarrow>
                 progressReported (events run) \<and> (events run = [] \<or> last (events run) \<noteq> ChunkNull)
                   \<longrightarrow> progressReported (events r)"
  assume body: "(if isComplete ops (uploader run) then Some run
      else
        (case uploadDataChunk ops (uploader run) of
           (nextChunk, u') \<Rightarrow>
             if \<not> nextChunk
             then Some \<lparr>uploader = u', events = events run @ [ChunkNull]\<rparr>
             else
               f ops
                 \<lparr>uploader = u',
                  events = events run
                    @ [ChunkUploaded,
                       Logged (pctComplete ops u') (uploadedChunks ops u') (totalChunks ops u')]\<rparr>))
      = Some r"
  show "progressReported (events run) \<and> (events run = [] \<or> last (events run) \<noteq> ChunkNull)
          \<longrightarrow> progressReported (events r)"
  proof
    assume pre: "progressReported (events run) \<and> (events run = [] \<or> last (events run) \<noteq> ChunkNull)"
    show "progressReported (events r)"
    proof (cases "isComplete ops (uploader run)")
      case True
      with body pre show ?thesis by simp
    next
      case False
      obtain ok u' where step: "uploadDataChunk ops (uploader run) = (ok, u')"
        by (cases "uploadDataChunk ops (uploader run)")
      show ?thesis
      proof (cases ok)
        case True
        with body False step have
          "f ops \<lparr>uploader = u',
                  events = events run
                    @ [ChunkUploaded,
                       Logged (pctComplete ops u') (uploadedChunks ops u') (totalChunks ops u')]\<rparr>
             = Some r" by simp
        from IH[OF this] progressReported_append[of "events run"] pre
        show ?thesis by simp
      next
        case nul: False
        with body False step have "r = \<lparr>uploader = u', events = events run @ [ChunkNull]\<rparr>" by simp
        with progressReported_append[of "events run"] pre show ?thesis by simp
      qed
    qed
  qed
qed

text \<open>
  C6 (as amended): for every chunked upload, uploading an already-complete transaction
  performs no chunk step; every chunk that is uploaded is followed at once by its progress
  line; and when the uploader returns a null chunk before completion the loop stops there
  and the call returns normally: the stopped, incomplete upload is not signalled to the
  caller as an error. The call returns whenever the uploader completes or returns null
  after finitely many chunks.
\<close>

theorem sendChunkedUploadWithProgress_behaviour:
  assumes "getUploader ops trx = Inr u"
  shows "(isComplete ops u \<longrightarrow>
            sendChunkedUploadWithProgress ops trx = Some (Inr \<lparr>uploader = u, events = []\<rparr>))
       \<and> (\<not> isComplete ops u \<and> uploadDataChunk ops u = (False, u') \<longrightarrow>
            sendChunkedUploadWithProgress ops trx = Some (Inr \<lparr>uploader = u', events = [ChunkNull]\<rparr>))
       \<and> (\<forall>r. sendChunkedUploadWithProgress ops trx = Some r \<longrightarrow>
            (\<exists>run. r = Inr run \<and> progressReported (events run)))
       \<and> (stopsWithin k ops u \<longrightarrow> (\<exists>run. sendChunkedUploadWithProgress ops trx = Some (Inr run)))"
proof (intro conjI impI allI)
  assume "isComplete ops u"
  with assms show "sendChunkedUploadWithProgress ops trx = Some (Inr \<lparr>uploader = u, events = []\<rparr>)"
    by (simp add: sendChunkedUploadWithProgress_def loop_complete)
next
  assume "\<not> isComplete ops u \<and> uploadDataChunk ops u = (False, u')"
  with assms loop_null[of ops "\<lparr>uploader = u, events = []\<rparr>" u']
  show "sendChunkedUploadWithProgress ops trx = Some (Inr \<lparr>uploader = u', events = [ChunkNull]\<rparr>)"
    by (simp add: sendChunkedUploadWithProgress_def)
next
  fix r
  assume "sendChunkedUploadWithProgress ops trx = Some r"
  with assms obtain run where
      run: "chunkedUploadLoop ops \<lparr>uploader = u, events = []\<rparr> = Some run" and r: "r = Inr run"
    by (auto simp: sendChunkedUploadWithProgress_def)
  from loop_events[OF run] have "progressReported (events run)" by simp
  with r show "\<exists>run. r = Inr run \<and> progressReported (events run)" by blast
next
  assume "stopsWithin k ops u"
  from loop_returns[of k ops "\<lparr>uploader = u, events = []\<rparr>"] this assms
  show "\<exists>run. sendChunkedUploadWithProgress ops trx = Some (Inr run)"
    by (auto simp: sendChunkedUploadWithProgress_def)
qed

theorem sendChunkedUploadWithProgress_behaviour_witness:
  "getUploader completeUploader dataTrx0 = Inr 2 \<and> isComplete completeUploader 2
   \<and> sendChunkedUploadWithProgress completeUploader dataTrx0
       = Some (Inr \<lparr>uploader = 2, events = []\<rparr>)
   \<and> getUploader steadyUploader dataTrx0 = Inr 0 \<and> stopsWithin 2 steadyUploader 0
   \<and> sendChunkedUploadWithProgress steadyUploader dataTrx0
       = Some (Inr \<lparr>uploader = 2,
                    events = [ChunkUploaded, Logged 50 1 2, ChunkUploaded, Logged 100 2 2]\<rparr>)
   \<and> progressReported [ChunkUploaded, Logged 50 1 2, ChunkUploaded, Logged 100 2 2]"
proof -
  have c: "getUploader completeUploader dataTrx0 = Inr 2" "isComplete completeUploader 2"
    by (simp_all add: completeUploader_def steadyUploader_def)
  have s: "getUploader steadyUploader dataTrx0 = Inr 0" "stopsWithin 2 steadyUploader 0"
    by (simp_all add: steadyUploader_def numeral_2_eq_2)
  have run: "sendChunkedUploadWithProgress steadyUploader dataTrx0
       = Some (Inr \<lparr>uploader = 2,
                    events = [ChunkUploaded, Logged 50 1 2, ChunkUploaded, Logged 100 2 2]\<rparr>)"
    by code_simp
  from sendChunkedUploadWithProgress_behaviour[OF c(1), of 0 0] c
       sendChunkedUploadWithProgress_behaviour[OF s(1), of 0 2] s run
  show ?thesis by auto
qed

text \<open>
  C6, counterexample: the second chunk of three is null; the call is fulfilled, not
  rejected, with one chunk uploaded and the upload incomplete.
\<close>

theorem sendChunkedUploadWithProgress_null_chunk_not_an_error:
  "sendChunkedUploadWithProgress stallingUploader dataTrx0
     = Some (Inr \<lparr>uploader = 1, events = [ChunkUploaded, Logged 33 1 3, ChunkNull]\<rparr>)
   \<and> \<not> isComplete stallingUploader 1"
  by code_simp

subsection \<open>Creating folders\<close>








subsection \<open>Uploading files\<close>



subsection \<open>The key of a private file\<close>

lemma uploadPrivateFile_key:
  "uploadPrivateFile env w parentFolder filePath password dest = (w', Inr r)
     \<Longrightarrow> map key (created r) = [Some []]"
  by (auto simp: uploadPrivateFile_def Let_def
           split: sum.splits option.splits if_splits prod.splits)

text \<open>
  C3, evaluated on a private upload that succeeds: the three transactions are submitted
  and the entry of the created file carries the empty string as its key.
\<close>

theorem uploadPrivateFile_returns_empty_key:
  "uploadPrivateFile arDrive1 \<lparr>submitted = []\<rparr> ''r1'' ''/tmp/x.txt'' ''secret'' None
     = (\<lparr>submitted = [dataTrx0, metaTrx0, tipTrx0]\<rparr>,
        Inr \<lparr>created = [\<lparr>entityType = ''file'', metadataTxId = ''meta-tx'',
                          dataTxId = Some ''data-tx'', createdEntityId = Some ''file-1'',
                          key = Some []\<rparr>],
             tips = [\<lparr>tipTxId = ''tip-tx'', recipient = ''holder'', winston = ''105''\<rparr>],
             fees = [(''meta-tx'', 50), (''data-tx'', 700), (''tip-tx'', 30)]\<rparr>)"
  by code_simp

subsection \<open>Selecting the token holder\<close>















end
